theory Spec2Isabelle
  imports Main "HOL-Library.AList"
begin

text \<open>
  The OCI compartment and policy browser: the parser of the configuration file, the
  resolver of the root id and the two request handlers of the backend
  (\<^verbatim>\<open>backend/index.js\<close>), and the navigation of the component
  \<^verbatim>\<open>CompartmentBrowser\<close> of the frontend, as functions on explicit states. The
  definitions come first, the properties follow.
\<close>

section \<open>ConfigStore: the OCI configuration file (backend/index.js)\<close>

text \<open>
  Strings are lists of 8-bit characters. The file is read with
  \<^verbatim>\<open>fs.readFileSync(configPath, 'utf-8')\<close>; a read that throws is the value
  \<open>None\<close> of \<open>string option\<close>. Only ASCII white space and the line terminators
  LF and CR are modelled (JavaScript also knows a few non-ASCII ones).
\<close>

abbreviation LF :: char where "LF \<equiv> CHR 0x0A"
abbreviation CR :: char where "CR \<equiv> CHR 0x0D"

text \<open>
  The regular expression \<^verbatim>\<open>/^\[([^\]]+)\]/\<close> tried at the start of a string: an
  opening bracket, one or more characters other than the closing bracket (greedy, and a
  line break is such a character), then the closing bracket. The result is the captured
  name and the text behind the match.
\<close>

definition match_header :: "string \<Rightarrow> (string \<times> string) option" where
  "match_header s =
     (case s of
        [] \<Rightarrow> None
      | c # t \<Rightarrow>
          if c = CHR ''[''
          then (let name = takeWhile (\<lambda>x. x \<noteq> CHR '']'') t;
                    rest = dropWhile (\<lambda>x. x \<noteq> CHR '']'') t
                in if name \<noteq> [] \<and> rest \<noteq> [] then Some (name, tl rest) else None)
          else None)"

lemma match_header_shorter:
  "match_header s = Some (name, rest) \<Longrightarrow> length rest < length s"
proof -
  assume h: "match_header s = Some (name, rest)"
  then obtain c t where s: "s = c # t" by (cases s) (auto simp: match_header_def)
  have "length (dropWhile (\<lambda>x. x \<noteq> CHR '']'') t) \<le> length t"
    by (rule length_dropWhile_le)
  with h s show ?thesis
    by (auto simp: match_header_def Let_def split: if_splits)
qed

text \<open>
  \<^verbatim>\<open>listOciProfiles\<close>: the loop \<^verbatim>\<open>while ((match = profileRegex.exec(content)))\<close>
  with the flags \<^verbatim>\<open>gm\<close>. The flag \<open>bol\<close> says that the current position is the start
  of the text or follows a line terminator, where \<^verbatim>\<open>^\<close> matches; after a match the
  search resumes behind the closing bracket.
\<close>

function scan_profiles :: "bool \<Rightarrow> string \<Rightarrow> string list" where
  "scan_profiles bol [] = []"
| "scan_profiles bol (c # cs) =
     (case (if bol then match_header (c # cs) else None) of
        Some (name, rest) \<Rightarrow> name # scan_profiles False rest
      | None \<Rightarrow> scan_profiles (c = LF \<or> c = CR) cs)"
  by pat_completeness auto
termination
  by (relation "measure (\<lambda>(bol, s). length s)")
     (auto split: if_splits dest: match_header_shorter)

definition listOciProfiles :: "string option \<Rightarrow> string list" where
  "listOciProfiles file =
     (case file of
        None \<Rightarrow> []
      | Some content \<Rightarrow> scan_profiles True content)"

text \<open>
  \<^verbatim>\<open>content.split(/\r?\n/)\<close>: the text is cut at every LF, and a CR right in front of the
  LF belongs to the separator. The accumulator holds the current line reversed.
\<close>

fun split_acc :: "string \<Rightarrow> string \<Rightarrow> string list" where
  "split_acc cur [] = [rev cur]"
| "split_acc cur (c # cs) =
     (if c = LF
      then rev (case cur of [] \<Rightarrow> [] | d # r \<Rightarrow> if d = CR then r else cur) # split_acc [] cs
      else split_acc (c # cur) cs)"

definition split_lines :: "string \<Rightarrow> string list" where
  "split_lines content = split_acc [] content"

text \<open>\<^verbatim>\<open>String.prototype.trim\<close> on ASCII: TAB, LF, VT, FF, CR and the space.\<close>

definition is_space :: "char \<Rightarrow> bool" where
  "is_space c \<longleftrightarrow> c \<in> set [CHR 0x09, CHR 0x0A, CHR 0x0B, CHR 0x0C, CHR 0x0D, CHR 0x20]"

definition trim :: "string \<Rightarrow> string" where
  "trim s = rev (dropWhile is_space (rev (dropWhile is_space s)))"

text \<open>
  \<^verbatim>\<open>line.indexOf('=')\<close> with \<^verbatim>\<open>line.slice(0, idx)\<close> and \<^verbatim>\<open>line.slice(idx + 1)\<close>:
  the text left and right of the first equals sign, or \<open>None\<close> when there is none
  (\<^verbatim>\<open>idx === -1\<close>).
\<close>

definition split_eq :: "string \<Rightarrow> (string \<times> string) option" where
  "split_eq line =
     (let lhs = takeWhile (\<lambda>x. x \<noteq> CHR ''='') line;
          rhs = dropWhile (\<lambda>x. x \<noteq> CHR ''='') line
      in if rhs = [] then None else Some (lhs, tl rhs))"

text \<open>
  The object \<^verbatim>\<open>profileData\<close> is the list of its own properties in insertion order.
  The assignment \<^verbatim>\<open>profileData[key] = val\<close> replaces the value of a key that is there
  and appends a new key otherwise. One key is special in JavaScript: an assignment to
  \<^verbatim>\<open>__proto__\<close> runs the setter inherited from \<^verbatim>\<open>Object.prototype\<close>, which ignores
  a string value, so no own property appears.
\<close>

type_synonym fields = "(string \<times> string) list"

definition assign :: "string \<Rightarrow> string \<Rightarrow> fields \<Rightarrow> fields" where
  "assign key val profileData =
     (if key = ''__proto__'' then profileData else AList.update key val profileData)"

text \<open>
  The body of the \<^verbatim>\<open>for (const line of lines)\<close> loop of \<^verbatim>\<open>loadOciProfile\<close> on a
  line that is not a header: it is used when the loop is inside the requested profile,
  the trimmed line is not empty and does not start with \<^verbatim>\<open>#\<close>, and it has an equals
  sign.
\<close>

definition field_line :: "string \<Rightarrow> (string \<times> string) option" where
  "field_line line =
     (if trim line \<noteq> [] \<and> \<not> (case trim line of [] \<Rightarrow> False | c # _ \<Rightarrow> c = CHR ''#'')
      then (case split_eq line of
              None \<Rightarrow> None
            | Some (lhs, rhs) \<Rightarrow> Some (trim lhs, trim rhs))
      else None)"

fun profile_loop :: "string \<Rightarrow> bool \<Rightarrow> fields \<Rightarrow> string list \<Rightarrow> fields" where
  "profile_loop profileName inProfile profileData [] = profileData"
| "profile_loop profileName inProfile profileData (line # lines) =
     (case match_header line of
        Some (name, rest) \<Rightarrow> profile_loop profileName (name = profileName) profileData lines
      | None \<Rightarrow>
          (if inProfile
           then (case field_line line of
                   Some (key, val) \<Rightarrow>
                     profile_loop profileName inProfile (assign key val profileData) lines
                 | None \<Rightarrow> profile_loop profileName inProfile profileData lines)
           else profile_loop profileName inProfile profileData lines))"

definition loadOciProfile :: "string \<Rightarrow> string option \<Rightarrow> fields option" where
  "loadOciProfile profileName file =
     (case file of
        None \<Rightarrow> None
      | Some content \<Rightarrow>
          (let profileData = profile_loop profileName False [] (split_lines content)
           in if profileData \<noteq> [] then Some profileData else None))"

text \<open>The configuration text of the round-trip property, one line per list element.\<close>

definition unlines :: "string list \<Rightarrow> string" where
  "unlines ls = concat (map (\<lambda>l. l @ [LF]) ls)"

definition cfg_ab :: string where
  "cfg_ab = unlines [''[a]'', ''k=v'', ''[b]'', ''x=1'', ''y=2'']"


definition cfg_repeated :: string where
  "cfg_repeated =
     unlines [''[a]'', ''k=1'', ''m=5'', ''[b]'', ''z=0'', ''[a]'', ''k=2'', ''j=3'', ''[c]'',
       ''# only a comment'']"

subsection \<open>Sections, as the parsing rule describes them\<close>

text \<open>
  A header line opens a section that runs up to the next header line; lines in front of
  the first header belong to no section. A section is its name with its body lines.
\<close>

fun sections :: "string list \<Rightarrow> (string \<times> string list) list" where
  "sections [] = []"
| "sections (l # ls) =
     (case match_header l of
        Some (name, rest) \<Rightarrow> (name, takeWhile (\<lambda>x. match_header x = None) ls) # sections ls
      | None \<Rightarrow> sections ls)"

text \<open>The body lines of every section named \<open>profileName\<close>, in file order.\<close>

definition profile_body :: "string \<Rightarrow> string list \<Rightarrow> string list" where
  "profile_body profileName ls =
     concat (map snd (filter (\<lambda>s. fst s = profileName) (sections ls)))"

text \<open>The parsed \<open>key=value\<close> fields of the named profile, in file order.\<close>

definition profile_fields :: "string \<Rightarrow> string list \<Rightarrow> fields" where
  "profile_fields profileName ls = List.map_filter field_line (profile_body profileName ls)"

text \<open>A run of assignments \<^verbatim>\<open>profileData[key] = val\<close>, first to last.\<close>

definition assign_all :: "fields \<Rightarrow> fields \<Rightarrow> fields" where
  "assign_all profileData kvs = foldl (\<lambda>m (k, v). assign k v m) profileData kvs"

section \<open>RootResolver: the tenancy id from the instance metadata (backend/index.js)\<close>

text \<open>
  The module variable \<^verbatim>\<open>_instanceMetaTenancyOcid\<close> (initially \<^verbatim>\<open>null\<close>, the value
  \<open>None\<close>) is the field \<open>cache\<close>; \<open>metaRequests\<close> counts the calls of
  \<^verbatim>\<open>http.get\<close> to the metadata address.
\<close>

record resolver =
  cache :: "string option"
  metaRequests :: nat

definition resolver_init :: resolver where
  "resolver_init = \<lparr>cache = None, metaRequests = 0\<rparr>"

text \<open>
  What one metadata request leads to: the request emits \<^verbatim>\<open>error\<close>; or the body is
  read and \<^verbatim>\<open>JSON.parse\<close> throws; or the body parses to \<^verbatim>\<open>null\<close>, so that reading
  \<^verbatim>\<open>meta.compartmentId\<close> throws inside the \<^verbatim>\<open>try\<close>; or it parses to a value whose
  \<^verbatim>\<open>compartmentId\<close> is absent or not a string; or \<^verbatim>\<open>compartmentId\<close> is the given
  string.
\<close>

datatype meta_reply =
    MetaNetworkError
  | MetaParseError
  | MetaNull
  | MetaNoString
  | MetaCompartmentId string

text \<open>A JavaScript value that is \<^verbatim>\<open>null\<close>, \<^verbatim>\<open>undefined\<close> or a string, as a condition.\<close>

definition truthy :: "string option \<Rightarrow> bool" where
  "truthy v = (case v of None \<Rightarrow> False | Some x \<Rightarrow> x \<noteq> [])"

text \<open>
  \<^verbatim>\<open>getInstanceTenancyOcid\<close>: the value the promise resolves to, with the new state.
  The reply is that of the metadata service, read only when a request is made.
\<close>

definition getInstanceTenancyOcid :: "meta_reply \<Rightarrow> resolver \<Rightarrow> string option \<times> resolver" where
  "getInstanceTenancyOcid reply st =
     (if truthy (cache st) then (cache st, st)
      else
        (let st' = st\<lparr>metaRequests := Suc (metaRequests st)\<rparr>
         in case reply of
              MetaCompartmentId v \<Rightarrow>
                if v \<noteq> [] then (Some v, st'\<lparr>cache := Some v\<rparr>) else (None, st')
            | _ \<Rightarrow> (None, st')))"

text \<open>
  A sequence of calls, each finished before the next starts; the \<open>i\<close>-th reply is what
  the metadata service would answer to the \<open>i\<close>-th call.
\<close>

fun resolve_all :: "meta_reply list \<Rightarrow> resolver \<Rightarrow> string option list \<times> resolver" where
  "resolve_all [] st = ([], st)"
| "resolve_all (r # rs) st =
     (case getInstanceTenancyOcid r st of
        (v, st1) \<Rightarrow> (case resolve_all rs st1 of (vs, st2) \<Rightarrow> (v # vs, st2)))"

text \<open>A reply without a non-empty \<^verbatim>\<open>compartmentId\<close> string.\<close>

definition meta_fails :: "meta_reply \<Rightarrow> bool" where
  "meta_fails r = (case r of MetaCompartmentId v \<Rightarrow> v = [] | _ \<Rightarrow> True)"

section \<open>The request handlers (backend/index.js)\<close>

definition INSTANCE_PRINCIPAL_PROFILE_NAME :: string where
  "INSTANCE_PRINCIPAL_PROFILE_NAME = ''instance-principal''"

text \<open>
  The credentials a client of the identity service is built with, the calls made to the
  service, and what a call leads to: it throws an error with a message (empty when the
  error has none), or it returns a response whose \<^verbatim>\<open>items\<close> may be absent.
\<close>

datatype auth = InstancePrincipals | ConfigFile string

datatype upstream_call =
    ListCompartments auth "string option"
  | ListPolicies auth string

datatype 'a reply = Throws string | Returns "'a list option"

text \<open>
  The server and what surrounds it: the start-up flag \<^verbatim>\<open>--instance-principal\<close>, the
  configuration file (\<open>None\<close> when it cannot be read), the SDK (\<open>newClient\<close> is
  \<open>Some msg\<close> when building the provider or the client throws) and the metadata
  service. A query parameter is \<open>None\<close> when the request has none of this name.
\<close>

record 'a server =
  instancePrincipalMode :: bool
  configFile :: "string option"
  newClient :: "auth \<Rightarrow> string option"
  identity :: "upstream_call \<Rightarrow> 'a reply"
  metadata :: meta_reply

datatype 'a body = ErrorJson string | ArrayJson "'a list"

type_synonym 'a http = "nat \<times> 'a body"

text \<open>\<^verbatim>\<open>res.status(500).json({ error: err.message || fallback })\<close>\<close>

definition status500 :: "string \<Rightarrow> string \<Rightarrow> 'a http" where
  "status500 msg fallback = (500, ErrorJson (if msg = [] then fallback else msg))"

text \<open>\<^verbatim>\<open>res.json(response.items || [])\<close>\<close>

definition status200 :: "'a list option \<Rightarrow> 'a http" where
  "status200 xs = (200, ArrayJson (case xs of None \<Rightarrow> [] | Some ys \<Rightarrow> ys))"

text \<open>
  \<^verbatim>\<open>app.get('/api/compartments')\<close>: the response, the calls made to the identity
  service, and the resolver's new state.
\<close>

definition api_compartments ::
  "'a server \<Rightarrow> string option \<Rightarrow> string option \<Rightarrow> resolver \<Rightarrow>
     'a http \<times> upstream_call list \<times> resolver" where
  "api_compartments srv profile parent st =
     (if instancePrincipalMode srv then
        (if profile \<noteq> Some INSTANCE_PRINCIPAL_PROFILE_NAME
         then ((400, ErrorJson ''Profile must be 'instance-principal' in this mode''), [], st)
         else
           (case newClient srv InstancePrincipals of
              Some msg \<Rightarrow> (status500 msg ''Failed to list compartments'', [], st)
            | None \<Rightarrow>
                (case getInstanceTenancyOcid (metadata srv) st of
                   (tenancyId, st') \<Rightarrow>
                     if \<not> truthy tenancyId
                     then (status500 ''Unable to get tenancy OCID from instance metadata''
                             ''Failed to list compartments'', [], st')
                     else
                       (let compartmentId = (if truthy parent then parent else tenancyId);
                            request = ListCompartments InstancePrincipals compartmentId
                        in case identity srv request of
                             Throws msg \<Rightarrow>
                               (status500 msg ''Failed to list compartments'', [request], st')
                           | Returns xs \<Rightarrow> (status200 xs, [request], st')))))
      else
        (case profile of
           None \<Rightarrow> ((400, ErrorJson ''Missing profile''), [], st)
         | Some p \<Rightarrow>
             if p = [] then ((400, ErrorJson ''Missing profile''), [], st)
             else
               (case loadOciProfile p (configFile srv) of
                  None \<Rightarrow> ((404, ErrorJson ''Profile not found''), [], st)
                | Some profileConfig \<Rightarrow>
                    (case newClient srv (ConfigFile p) of
                       Some msg \<Rightarrow> (status500 msg ''Failed to list compartments'', [], st)
                     | None \<Rightarrow>
                         (let compartmentId =
                                (if truthy parent then parent
                                 else map_of profileConfig ''tenancy'');
                              request = ListCompartments (ConfigFile p) compartmentId
                          in case identity srv request of
                               Throws msg \<Rightarrow>
                                 (status500 msg ''Failed to list compartments'', [request], st)
                             | Returns xs \<Rightarrow> (status200 xs, [request], st))))))"

text \<open>\<^verbatim>\<open>app.get('/api/policies')\<close>: the response and the calls made to the identity service.\<close>

definition api_policies ::
  "'a server \<Rightarrow> string option \<Rightarrow> string option \<Rightarrow> 'a http \<times> upstream_call list" where
  "api_policies srv profile compartmentId =
     (if instancePrincipalMode srv then
        (if profile \<noteq> Some INSTANCE_PRINCIPAL_PROFILE_NAME
         then ((400, ErrorJson ''Profile must be 'instance-principal' in this mode''), [])
         else
           (case compartmentId of
              None \<Rightarrow> ((400, ErrorJson ''Missing compartmentId''), [])
            | Some c \<Rightarrow>
                if c = [] then ((400, ErrorJson ''Missing compartmentId''), [])
                else
                  (case newClient srv InstancePrincipals of
                     Some msg \<Rightarrow> (status500 msg ''Failed to list policies'', [])
                   | None \<Rightarrow>
                       (let request = ListPolicies InstancePrincipals c
                        in case identity srv request of
                             Throws msg \<Rightarrow> (status500 msg ''Failed to list policies'', [request])
                           | Returns xs \<Rightarrow> (status200 xs, [request])))))
      else
        (case (profile, compartmentId) of
           (Some p, Some c) \<Rightarrow>
             if p = [] \<or> c = []
             then ((400, ErrorJson ''Missing profile or compartmentId''), [])
             else
               (case loadOciProfile p (configFile srv) of
                  None \<Rightarrow> ((404, ErrorJson ''Profile not found''), [])
                | Some profileConfig \<Rightarrow>
                    (case newClient srv (ConfigFile p) of
                       Some msg \<Rightarrow> (status500 msg ''Failed to list policies'', [])
                     | None \<Rightarrow>
                         (let request = ListPolicies (ConfigFile p) c
                          in case identity srv request of
                               Throws msg \<Rightarrow>
                                 (status500 msg ''Failed to list policies'', [request])
                             | Returns xs \<Rightarrow> (status200 xs, [request]))))
         | _ \<Rightarrow> ((400, ErrorJson ''Missing profile or compartmentId''), [])))"

text \<open>A configuration file in which the sentinel name is a profile of its own.\<close>

definition cfg_sentinel :: string where
  "cfg_sentinel = unlines [''[instance-principal]'', ''tenancy=ocid1.tenancy.x'', ''region=r1'']"

text \<open>A server for examples: every client can be built, every call returns no items.\<close>

definition quiet_server :: "bool \<Rightarrow> string option \<Rightarrow> nat server" where
  "quiet_server ipMode file =
     \<lparr>instancePrincipalMode = ipMode, configFile = file, newClient = (\<lambda>a. None),
      identity = (\<lambda>c. Returns (Some [])), metadata = MetaCompartmentId ''ocid1.tenancy.m''\<rparr>"

section \<open>NavigationController: the component CompartmentBrowser (frontend)\<close>

text \<open>
  A compartment as the backend sends it, with the properties the component reads; a
  property that is absent reads as \<^verbatim>\<open>undefined\<close>, which every use below treats like
  the empty string, so the empty string stands for both. A stack entry is the object
  \<^verbatim>\<open>{ id: c.id, name: c.name }\<close>.
\<close>

record compartment =
  c_id :: string
  c_name :: string
  c_description :: string
  c_compartmentId :: string

record entry =
  e_id :: string
  e_name :: string

record policy =
  p_id :: string
  p_name :: string
  p_description :: string
  p_statements :: "string list"

text \<open>
  The requests of \<^verbatim>\<open>fetch\<close>, by their decoded query parameters (\<open>parent\<close> is only
  added to the URL when \<^verbatim>\<open>parentId\<close> is not empty), and the promise chains that wait
  for a response, with the values their callbacks close over: the profile of the render
  that issued the request, \<^verbatim>\<open>parentId\<close> and \<^verbatim>\<open>setRootId\<close>.
\<close>

datatype request =
    GetCompartments string "string option"
  | GetPolicies string string

datatype pending =
    AwaitChildren string string bool
  | AwaitPolicies string string

text \<open>
  The state of the component (with the state lifted to \<^verbatim>\<open>App\<close>), the requests sent so
  far and the promise chains in flight. The list of profile names and its loading flag,
  which no navigation step reads, are left out.
\<close>

record session =
  selectedProfile :: string
  profileRootId :: string
  compartmentStack :: "entry list"
  compartments :: "compartment list"
  policies :: "policy list"
  loadingCompartments :: bool
  loadingPolicies :: bool
  error :: string
  sent :: "request list"
  inflight :: "pending list"

definition init_session :: session where
  "init_session =
     \<lparr>selectedProfile = [], profileRootId = [], compartmentStack = [], compartments = [],
      policies = [], loadingCompartments = False, loadingPolicies = False, error = [],
      sent = [], inflight = []\<rparr>"

text \<open>
  What \<^verbatim>\<open>fetch(url).then((r) => r.json())\<close> settles to: it rejects (the network fails or
  the body is not JSON), or it resolves to a JSON value: \<^verbatim>\<open>null\<close>; an array; or any
  other value, given by its property \<^verbatim>\<open>error\<close> (the empty string when the property is
  absent or falsy; the backend sends a string).
\<close>

datatype 'a json = JsonNull | JsonOther string | JsonArray "'a list"

datatype 'a fetched = Rejects | Resolves "'a json"

datatype js_exn = TypeError

text \<open>
  \<^verbatim>\<open>fetchPolicies\<close>, with the \<^verbatim>\<open>selectedProfile\<close> of its closure as first argument:
  the synchronous part, up to the call of \<^verbatim>\<open>fetch\<close>.
\<close>

definition fetchPolicies :: "string \<Rightarrow> string \<Rightarrow> session \<Rightarrow> session" where
  "fetchPolicies prof compartmentId s =
     (if prof = [] \<or> compartmentId = [] then s\<lparr>policies := []\<rparr>
      else s\<lparr>loadingPolicies := True, error := [],
             sent := sent s @ [GetPolicies prof compartmentId],
             inflight := inflight s @ [AwaitPolicies prof compartmentId]\<rparr>)"

text \<open>The callbacks of the promise chain of \<^verbatim>\<open>fetchPolicies\<close>; \<open>Inl\<close> is a throw.\<close>

definition policies_then :: "policy json \<Rightarrow> session \<Rightarrow> js_exn + session" where
  "policies_then data s =
     (case data of
        JsonArray items \<Rightarrow> Inr (s\<lparr>policies := items, loadingPolicies := False\<rparr>)
      | JsonOther e \<Rightarrow>
          Inr (s\<lparr>error := (if e \<noteq> [] then e else ''Unexpected response''), policies := [],
                 loadingPolicies := False\<rparr>)
      | JsonNull \<Rightarrow> Inl TypeError)"

definition policies_catch :: "session \<Rightarrow> session" where
  "policies_catch s =
     s\<lparr>error := ''Failed to load policies.'', policies := [], loadingPolicies := False\<rparr>"

text \<open>
  The chain \<^verbatim>\<open>.then(...).catch(...)\<close> once the fetch has settled: a rejection and a
  throw of the first callback both reach the second, which does not throw.
\<close>

definition policiesSettled :: "policy fetched \<Rightarrow> session \<Rightarrow> session" where
  "policiesSettled r s =
     (case r of
        Rejects \<Rightarrow> policies_catch s
      | Resolves data \<Rightarrow>
          (case policies_then data s of Inl exn \<Rightarrow> policies_catch s | Inr s' \<Rightarrow> s'))"

text \<open>\<^verbatim>\<open>fetchChildren\<close>, in the same way.\<close>

definition fetchChildren :: "string \<Rightarrow> string \<Rightarrow> bool \<Rightarrow> session \<Rightarrow> session" where
  "fetchChildren prof parentId setRootId s =
     (if prof = [] then s
      else s\<lparr>loadingCompartments := True, error := [],
             sent := sent s @ [GetCompartments prof (if parentId = [] then None else Some parentId)],
             inflight := inflight s @ [AwaitChildren prof parentId setRootId]\<rparr>)"

text \<open>
  The value of \<^verbatim>\<open>setRootId && data.length > 0 && data[0].compartmentId\<close>, which the
  callback tests twice; a falsy value is the empty string.
\<close>

definition root_hint :: "bool \<Rightarrow> compartment list \<Rightarrow> string" where
  "root_hint setRootId data =
     (if setRootId then (case data of [] \<Rightarrow> [] | c # cs \<Rightarrow> c_compartmentId c) else [])"

definition children_then ::
  "string \<Rightarrow> string \<Rightarrow> bool \<Rightarrow> compartment json \<Rightarrow> session \<Rightarrow> js_exn + session" where
  "children_then prof parentId setRootId data s =
     (case data of
        JsonArray items \<Rightarrow>
          (let s1 = s\<lparr>compartments := items\<rparr>;
               s2 = (if root_hint setRootId items \<noteq> []
                     then s1\<lparr>profileRootId := root_hint setRootId items\<rparr> else s1);
               s3 = fetchPolicies prof
                      (if root_hint setRootId items \<noteq> [] then root_hint setRootId items
                       else parentId) s2
           in Inr (s3\<lparr>loadingCompartments := False\<rparr>))
      | JsonOther e \<Rightarrow>
          Inr (s\<lparr>error := (if e \<noteq> [] then e else ''Unexpected response''), compartments := [],
                 loadingCompartments := False\<rparr>)
      | JsonNull \<Rightarrow> Inl TypeError)"

definition children_catch :: "session \<Rightarrow> session" where
  "children_catch s =
     s\<lparr>error := ''Failed to load compartments.'', compartments := [],
       loadingCompartments := False\<rparr>"

definition childrenSettled ::
  "string \<Rightarrow> string \<Rightarrow> bool \<Rightarrow> compartment fetched \<Rightarrow> session \<Rightarrow> session" where
  "childrenSettled prof parentId setRootId r s =
     (case r of
        Rejects \<Rightarrow> children_catch s
      | Resolves data \<Rightarrow>
          (case children_then prof parentId setRootId data s of
             Inl exn \<Rightarrow> children_catch s
           | Inr s' \<Rightarrow> s'))"

text \<open>\<^verbatim>\<open>handleDrilldown\<close> and \<^verbatim>\<open>handleBack\<close>\<close>

definition entry_of :: "compartment \<Rightarrow> entry" where
  "entry_of c = \<lparr>e_id = c_id c, e_name = c_name c\<rparr>"

definition handleDrilldown :: "compartment \<Rightarrow> session \<Rightarrow> session" where
  "handleDrilldown c s =
     fetchPolicies (selectedProfile s) (c_id c)
       (fetchChildren (selectedProfile s) (c_id c) False
          (s\<lparr>compartmentStack := compartmentStack s @ [entry_of c]\<rparr>))"

definition handleBack :: "session \<Rightarrow> session" where
  "handleBack s =
     (let newStack = butlast (compartmentStack s);
          parentId = (if newStack = [] then profileRootId s else e_id (last newStack))
      in fetchPolicies (selectedProfile s) parentId
           (fetchChildren (selectedProfile s) parentId False
              (s\<lparr>compartmentStack := newStack\<rparr>)))"

text \<open>
  \<^verbatim>\<open>handleProfileChange\<close>, and the effect with the dependency \<^verbatim>\<open>[selectedProfile]\<close>,
  which React runs after the render when the selected profile has changed.
\<close>

definition handleProfileChange :: "string \<Rightarrow> session \<Rightarrow> session" where
  "handleProfileChange profile s =
     s\<lparr>selectedProfile := profile, compartments := [], policies := [], compartmentStack := [],
       profileRootId := []\<rparr>"

definition profileEffect :: "session \<Rightarrow> session" where
  "profileEffect s =
     (if selectedProfile s \<noteq> []
      then fetchChildren (selectedProfile s) [] True (s\<lparr>compartmentStack := []\<rparr>)
      else s\<lparr>compartments := [], policies := [], compartmentStack := [], profileRootId := []\<rparr>)"

definition selectProfile :: "string \<Rightarrow> session \<Rightarrow> session" where
  "selectProfile profile s =
     (if profile = selectedProfile s then handleProfileChange profile s
      else profileEffect (handleProfileChange profile s))"

text \<open>
  The events of a session, handled one at a time: the three user actions, and the
  settling of the \<open>i\<close>-th promise chain in flight with the given outcome. Opening a
  policy, which unmounts the component, is not among them.
\<close>

datatype event =
    SelectProfile string
  | Drilldown compartment
  | Back
  | ChildrenReply nat "compartment fetched"
  | PoliciesReply nat "policy fetched"

definition remove_nth :: "nat \<Rightarrow> 'a list \<Rightarrow> 'a list" where
  "remove_nth i xs = take i xs @ drop (Suc i) xs"

definition settle_children :: "nat \<Rightarrow> compartment fetched \<Rightarrow> session \<Rightarrow> session" where
  "settle_children i r s =
     (if i < length (inflight s)
      then (case inflight s ! i of
              AwaitChildren prof parentId setRootId \<Rightarrow>
                childrenSettled prof parentId setRootId r
                  (s\<lparr>inflight := remove_nth i (inflight s)\<rparr>)
            | AwaitPolicies prof compartmentId \<Rightarrow> s)
      else s)"

definition settle_policies :: "nat \<Rightarrow> policy fetched \<Rightarrow> session \<Rightarrow> session" where
  "settle_policies i r s =
     (if i < length (inflight s)
      then (case inflight s ! i of
              AwaitPolicies prof compartmentId \<Rightarrow>
                policiesSettled r (s\<lparr>inflight := remove_nth i (inflight s)\<rparr>)
            | AwaitChildren prof parentId setRootId \<Rightarrow> s)
      else s)"

fun step :: "event \<Rightarrow> session \<Rightarrow> session" where
  "step (SelectProfile profile) s = selectProfile profile s"
| "step (Drilldown c) s = handleDrilldown c s"
| "step Back s = handleBack s"
| "step (ChildrenReply i r) s = settle_children i r s"
| "step (PoliciesReply i r) s = settle_policies i r s"

fun run :: "event list \<Rightarrow> session \<Rightarrow> session" where
  "run [] s = s"
| "run (e # es) s = run es (step e s)"

text \<open>
  What the rendered page lets the user do: a row of the table of compartments is there
  while a profile is selected and the compartments are not loading; the Back button is
  there while a profile is selected and the stack is not empty; the selection changes to
  another profile. A fetch in flight can settle at any time. A sequence of events is
  feasible when each event is enabled in the session it meets.
\<close>

definition drill_row :: "compartment \<Rightarrow> session \<Rightarrow> bool" where
  "drill_row c s \<longleftrightarrow>
     selectedProfile s \<noteq> [] \<and> \<not> loadingCompartments s \<and> c \<in> set (compartments s)"

definition back_button :: "session \<Rightarrow> bool" where
  "back_button s \<longleftrightarrow> selectedProfile s \<noteq> [] \<and> compartmentStack s \<noteq> []"

fun enabled :: "event \<Rightarrow> session \<Rightarrow> bool" where
  "enabled (SelectProfile profile) s = (profile \<noteq> selectedProfile s)"
| "enabled (Drilldown c) s = drill_row c s"
| "enabled Back s = back_button s"
| "enabled (ChildrenReply i r) s =
     (i < length (inflight s) \<and>
      (case inflight s ! i of
         AwaitChildren prof parentId setRootId \<Rightarrow> True
       | AwaitPolicies prof compartmentId \<Rightarrow> False))"
| "enabled (PoliciesReply i r) s =
     (i < length (inflight s) \<and>
      (case inflight s ! i of
         AwaitChildren prof parentId setRootId \<Rightarrow> False
       | AwaitPolicies prof compartmentId \<Rightarrow> True))"

fun feasible :: "event list \<Rightarrow> session \<Rightarrow> bool" where
  "feasible [] s = True"
| "feasible (e # es) s = (enabled e s \<and> feasible es (step e s))"





fun backs_on_stack :: "event list \<Rightarrow> session \<Rightarrow> bool" where
  "backs_on_stack [] s = True"
| "backs_on_stack (e # es) s =
     ((e = Back \<longrightarrow> compartmentStack s \<noteq> []) \<and> backs_on_stack es (step e s))"

text \<open>A failed fetch: it rejects, or it resolves to something that is not an array.\<close>

definition fetch_failed :: "'a fetched \<Rightarrow> bool" where
  "fetch_failed r = (case r of Resolves (JsonArray items) \<Rightarrow> False | _ \<Rightarrow> True)"

text \<open>Examples: two compartments, and the session in which the profile \<open>dev\<close> was selected.\<close>

definition sales :: compartment where
  "sales = \<lparr>c_id = ''ocid1.compartment.y'', c_name = ''Sales'', c_description = ''sales'',
            c_compartmentId = ''ocid1.tenancy.x''\<rparr>"

definition lab :: compartment where
  "lab = \<lparr>c_id = ''ocid1.compartment.z'', c_name = ''Lab'', c_description = ''lab'',
          c_compartmentId = ''ocid1.tenancy.x''\<rparr>"

definition allow_all :: policy where
  "allow_all = \<lparr>p_id = ''ocid1.policy.a'', p_name = ''admins'', p_description = ''all'',
                p_statements = [''Allow group Admins to manage all-resources in tenancy'']\<rparr>"

definition dev_session :: session where
  "dev_session = run [SelectProfile ''dev'', ChildrenReply 0 (Resolves (JsonArray [sales, lab]))]
                   init_session"


section \<open>Properties of the ConfigStore\<close>

lemma profile_loop_fold:
  "profile_loop name inP acc ls =
     assign_all acc (List.map_filter field_line
        ((if inP then takeWhile (\<lambda>x. match_header x = None) ls else []) @ profile_body name ls))"
proof (induction ls arbitrary: inP acc)
  case Nil
  show ?case by (simp add: profile_body_def assign_all_def)
next
  case (Cons l ls)
  show ?case
  proof (cases "match_header l")
    case None
    have pb: "profile_body name (l # ls) = profile_body name ls"
      using None by (simp add: profile_body_def)
    show ?thesis
      using None Cons.IH[of inP] Cons.IH[of inP "assign k v acc" for k v]
      by (auto simp: pb assign_all_def split: option.splits)
  next
    case (Some p)
    obtain n r where p: "p = (n, r)" by (cases p)
    have pb: "profile_body name (l # ls) =
        (if n = name then takeWhile (\<lambda>x. match_header x = None) ls else []) @ profile_body name ls"
      using Some p by (simp add: profile_body_def)
    show ?thesis
      using Some p Cons.IH[of "n = name" acc]
      by (simp add: pb)
  qed
qed

lemma profile_loop_fields:
  "profile_loop name False [] ls = assign_all [] (profile_fields name ls)"
  by (simp add: profile_loop_fold profile_fields_def)







text \<open>
  Claim C7. When the configuration file cannot be read, \<open>listOciProfiles\<close> returns the
  empty list and \<open>loadOciProfile\<close> returns not-found (\<open>None\<close>) for every name. When the
  file can be read, \<open>loadOciProfile\<close> returns not-found whenever the named profile has no
  parsed field, and in particular whenever no section carries the name.
\<close>

theorem config_missing_or_empty_not_found:
  "listOciProfiles None = [] \<and>
   loadOciProfile name None = None \<and>
   (profile_fields name (split_lines content) = [] \<longrightarrow>
      loadOciProfile name (Some content) = None) \<and>
   (name \<notin> set (map fst (sections (split_lines content))) \<longrightarrow>
      loadOciProfile name (Some content) = None)"
proof -
  have empty: "loadOciProfile name (Some content) = None"
    if "profile_fields name (split_lines content) = []"
    using that by (simp add: loadOciProfile_def profile_loop_fields assign_all_def)
  have absent: "profile_fields name (split_lines content) = []"
    if "name \<notin> set (map fst (sections (split_lines content)))"
  proof -
    have "filter (\<lambda>s. fst s = name) (sections (split_lines content)) = []"
      using that by (auto simp: filter_empty_conv)
    then show ?thesis by (simp add: profile_fields_def profile_body_def)
  qed
  show ?thesis
    using empty absent by (simp add: listOciProfiles_def loadOciProfile_def)
qed

theorem config_missing_or_empty_not_found_witness:
  "listOciProfiles None = [] \<and>
   loadOciProfile ''a'' None = None \<and>
   profile_fields ''c'' (split_lines cfg_repeated) = [] \<and>
   loadOciProfile ''c'' (Some cfg_repeated) = None \<and>
   ''d'' \<notin> set (map fst (sections (split_lines cfg_repeated))) \<and>
   loadOciProfile ''d'' (Some cfg_repeated) = None"
proof -
  have h1: "profile_fields ''c'' (split_lines cfg_repeated) = []"
    by code_simp
  have h2: "''d'' \<notin> set (map fst (sections (split_lines cfg_repeated)))"
    by code_simp
  show ?thesis
    using h1 h2 config_missing_or_empty_not_found [of "''c''" cfg_repeated]
      config_missing_or_empty_not_found [of "''d''" cfg_repeated]
      config_missing_or_empty_not_found [of "''a''" cfg_repeated]
    by blast
qed



section \<open>Properties of the RootResolver and of the request handlers\<close>

lemma getInstanceTenancyOcid_cached:
  "truthy (cache st) \<Longrightarrow> getInstanceTenancyOcid r st = (cache st, st)"
  by (simp add: getInstanceTenancyOcid_def)

lemma getInstanceTenancyOcid_fails:
  "\<not> truthy (cache st) \<Longrightarrow> meta_fails r \<Longrightarrow>
   getInstanceTenancyOcid r st = (None, st\<lparr>metaRequests := Suc (metaRequests st)\<rparr>)"
  by (cases r) (simp_all add: getInstanceTenancyOcid_def meta_fails_def)

lemma getInstanceTenancyOcid_succeeds:
  "\<not> truthy (cache st) \<Longrightarrow> v \<noteq> [] \<Longrightarrow>
   getInstanceTenancyOcid (MetaCompartmentId v) st =
     (Some v, st\<lparr>metaRequests := Suc (metaRequests st), cache := Some v\<rparr>)"
  by (simp add: getInstanceTenancyOcid_def)

lemma resolve_all_cached:
  "truthy (cache st) \<Longrightarrow> resolve_all rs st = (replicate (length rs) (cache st), st)"
  by (induction rs) (simp_all add: getInstanceTenancyOcid_cached)

lemma resolve_all_failures:
  "\<not> truthy (cache st) \<Longrightarrow> \<forall>r\<in>set fs. meta_fails r \<Longrightarrow>
   resolve_all fs st =
     (replicate (length fs) None, st\<lparr>metaRequests := metaRequests st + length fs\<rparr>)"
proof (induction fs arbitrary: st)
  case Nil
  show ?case by simp
next
  case (Cons f fs)
  let ?st1 = "st\<lparr>metaRequests := Suc (metaRequests st)\<rparr>"
  have one: "getInstanceTenancyOcid f st = (None, ?st1)"
    using Cons.prems by (simp add: getInstanceTenancyOcid_fails)
  have "\<not> truthy (cache ?st1)" using Cons.prems(1) by simp
  then have rest: "resolve_all fs ?st1 =
      (replicate (length fs) None, st\<lparr>metaRequests := Suc (metaRequests st + length fs)\<rparr>)"
    using Cons.IH [of ?st1] Cons.prems(2) by simp
  show ?case by (simp add: one rest)
qed

lemma resolve_all_append:
  "resolve_all (xs @ ys) st =
     (case resolve_all xs st of
        (vs, st1) \<Rightarrow> (case resolve_all ys st1 of (ws, st2) \<Rightarrow> (vs @ ws, st2)))"
  by (induction xs arbitrary: st) (simp_all split: prod.splits)

text \<open>
  Claim C2. Take any sequence of calls of \<open>getInstanceTenancyOcid\<close> that starts with
  nothing cached. As long as the replies fail (a network error, a body that does not
  parse, or no non-empty \<open>compartmentId\<close> string), every call returns \<open>null\<close>, nothing
  is cached, and every call issues a metadata request of its own. The first call whose
  reply carries a non-empty \<open>compartmentId\<close> returns it and caches it; every later call
  returns this cached value, whatever the metadata service would answer, and issues no
  request: the number of requests stays at the number of failed calls plus one.
\<close>

theorem root_memoization:
  assumes "cache st = None" and "\<forall>r\<in>set fs. meta_fails r" and "v \<noteq> []"
  shows "resolve_all fs st =
           (replicate (length fs) None, st\<lparr>metaRequests := metaRequests st + length fs\<rparr>) \<and>
         resolve_all (fs @ MetaCompartmentId v # rs) st =
           (replicate (length fs) None @ Some v # replicate (length rs) (Some v),
            st\<lparr>metaRequests := metaRequests st + length fs + 1, cache := Some v\<rparr>)"
proof -
  let ?st1 = "st\<lparr>metaRequests := metaRequests st + length fs\<rparr>"
  let ?st2 = "st\<lparr>metaRequests := Suc (metaRequests st + length fs), cache := Some v\<rparr>"
  have nocache: "\<not> truthy (cache st)" using assms(1) by (simp add: truthy_def)
  have fails: "resolve_all fs st = (replicate (length fs) None, ?st1)"
    using nocache assms(2) by (rule resolve_all_failures)
  have first: "getInstanceTenancyOcid (MetaCompartmentId v) ?st1 = (Some v, ?st2)"
    using getInstanceTenancyOcid_succeeds [of ?st1 v] nocache assms(3) by simp
  have later: "resolve_all rs ?st2 = (replicate (length rs) (Some v), ?st2)"
    using resolve_all_cached [of ?st2 rs] assms(3) by (simp add: truthy_def)
  have "resolve_all (fs @ MetaCompartmentId v # rs) st =
      (replicate (length fs) None @ Some v # replicate (length rs) (Some v), ?st2)"
    by (simp add: resolve_all_append fails first later)
  then show ?thesis using fails by simp
qed

theorem root_memoization_witness:
  "resolve_all [MetaNetworkError, MetaNull, MetaCompartmentId []] resolver_init =
     ([None, None, None], \<lparr>cache = None, metaRequests = 3\<rparr>) \<and>
   resolve_all
     [MetaNetworkError, MetaNull, MetaCompartmentId [], MetaCompartmentId ''ocid1.tenancy.x'',
      MetaParseError, MetaCompartmentId ''ocid1.tenancy.y''] resolver_init =
     ([None, None, None, Some ''ocid1.tenancy.x'', Some ''ocid1.tenancy.x'',
       Some ''ocid1.tenancy.x''],
      \<lparr>cache = Some ''ocid1.tenancy.x'', metaRequests = 4\<rparr>)"
  using root_memoization [of resolver_init
      "[MetaNetworkError, MetaNull, MetaCompartmentId []]" "''ocid1.tenancy.x''"
      "[MetaParseError, MetaCompartmentId ''ocid1.tenancy.y'']"]
  by (simp add: resolver_init_def meta_fails_def)

text \<open>
  Claim C3. In instance-principal mode a request to \<open>/api/compartments\<close> or to
  \<open>/api/policies\<close> whose \<open>profile\<close> parameter is not the string \<open>instance-principal\<close>
  (or is missing) is answered with status 400, and no call is made to the identity
  service (nor to the metadata service). In profile mode no name is special: for every
  non-empty name \<open>p\<close>, and so for the name \<open>instance-principal\<close>, the answer is 404 without
  any call when the configuration has no profile \<open>p\<close> with a field, and when it has one the
  identity service is called with the credentials of the profile \<open>p\<close> of the file.
\<close>

theorem mode_exclusivity:
  "(instancePrincipalMode srv \<and> profile \<noteq> Some INSTANCE_PRINCIPAL_PROFILE_NAME \<longrightarrow>
      api_compartments srv profile parent st =
        ((400, ErrorJson ''Profile must be 'instance-principal' in this mode''), [], st) \<and>
      api_policies srv profile compartmentId =
        ((400, ErrorJson ''Profile must be 'instance-principal' in this mode''), [])) \<and>
   (\<not> instancePrincipalMode srv \<and> p \<noteq> [] \<and> loadOciProfile p (configFile srv) = None \<longrightarrow>
      api_compartments srv (Some p) parent st = ((404, ErrorJson ''Profile not found''), [], st) \<and>
      (c \<noteq> [] \<longrightarrow>
         api_policies srv (Some p) (Some c) = ((404, ErrorJson ''Profile not found''), []))) \<and>
   (\<not> instancePrincipalMode srv \<and> p \<noteq> [] \<and> loadOciProfile p (configFile srv) = Some cfg \<and>
    newClient srv (ConfigFile p) = None \<longrightarrow>
      fst (snd (api_compartments srv (Some p) parent st)) =
        [ListCompartments (ConfigFile p)
           (if truthy parent then parent else map_of cfg ''tenancy'')] \<and>
      (c \<noteq> [] \<longrightarrow> snd (api_policies srv (Some p) (Some c)) = [ListPolicies (ConfigFile p) c]))"
  by (auto simp: api_compartments_def api_policies_def Let_def split: reply.splits)

theorem mode_exclusivity_witness:
  "api_compartments (quiet_server True (Some cfg_sentinel)) (Some ''dev'') None resolver_init =
     ((400, ErrorJson ''Profile must be 'instance-principal' in this mode''), [], resolver_init) \<and>
   api_policies (quiet_server True (Some cfg_sentinel)) None (Some ''ocid1.compartment.y'') =
     ((400, ErrorJson ''Profile must be 'instance-principal' in this mode''), []) \<and>
   loadOciProfile INSTANCE_PRINCIPAL_PROFILE_NAME (Some cfg_ab) = None \<and>
   api_compartments (quiet_server False (Some cfg_ab)) (Some INSTANCE_PRINCIPAL_PROFILE_NAME)
       None resolver_init =
     ((404, ErrorJson ''Profile not found''), [], resolver_init) \<and>
   api_policies (quiet_server False (Some cfg_ab)) (Some INSTANCE_PRINCIPAL_PROFILE_NAME)
       (Some ''ocid1.compartment.y'') =
     ((404, ErrorJson ''Profile not found''), []) \<and>
   fst (snd (api_compartments (quiet_server False (Some cfg_sentinel))
       (Some INSTANCE_PRINCIPAL_PROFILE_NAME) None resolver_init)) =
     [ListCompartments (ConfigFile INSTANCE_PRINCIPAL_PROFILE_NAME) (Some ''ocid1.tenancy.x'')] \<and>
   snd (api_policies (quiet_server False (Some cfg_sentinel))
       (Some INSTANCE_PRINCIPAL_PROFILE_NAME) (Some ''ocid1.compartment.y'')) =
     [ListPolicies (ConfigFile INSTANCE_PRINCIPAL_PROFILE_NAME) ''ocid1.compartment.y'']"
proof -
  have absent: "loadOciProfile INSTANCE_PRINCIPAL_PROFILE_NAME (Some cfg_ab) = None"
    by code_simp
  have present: "loadOciProfile INSTANCE_PRINCIPAL_PROFILE_NAME (Some cfg_sentinel) =
      Some [(''tenancy'', ''ocid1.tenancy.x''), (''region'', ''r1'')]"
    by code_simp
  have name: "INSTANCE_PRINCIPAL_PROFILE_NAME \<noteq> []" "''dev'' \<noteq> INSTANCE_PRINCIPAL_PROFILE_NAME"
    by (simp_all add: INSTANCE_PRINCIPAL_PROFILE_NAME_def)
  show ?thesis
    using absent present name
      mode_exclusivity [where srv = "quiet_server True (Some cfg_sentinel)"
        and profile = "Some ''dev''" and parent = None and st = resolver_init
        and compartmentId = "Some ''ocid1.compartment.y''"]
      mode_exclusivity [where srv = "quiet_server True (Some cfg_sentinel)"
        and profile = None and parent = None and st = resolver_init
        and compartmentId = "Some ''ocid1.compartment.y''"]
      mode_exclusivity [where srv = "quiet_server False (Some cfg_ab)"
        and p = INSTANCE_PRINCIPAL_PROFILE_NAME and parent = None and st = resolver_init
        and c = "''ocid1.compartment.y''"]
      mode_exclusivity [where srv = "quiet_server False (Some cfg_sentinel)"
        and p = INSTANCE_PRINCIPAL_PROFILE_NAME and parent = None and st = resolver_init
        and c = "''ocid1.compartment.y''"
        and cfg = "[(''tenancy'', ''ocid1.tenancy.x''), (''region'', ''r1'')]"]
    by (simp add: quiet_server_def truthy_def)
qed

section \<open>Properties of the NavigationController\<close>

text \<open>
  The fetches and the settling of a fetch change neither the stack nor the selected
  profile; only the handlers of the user actions write the stack.
\<close>

lemma fetchPolicies_keeps:
  "compartmentStack (fetchPolicies p c s) = compartmentStack s"
  "selectedProfile (fetchPolicies p c s) = selectedProfile s"
  "profileRootId (fetchPolicies p c s) = profileRootId s"
  "compartments (fetchPolicies p c s) = compartments s"
  by (simp_all add: fetchPolicies_def)

lemma fetchChildren_keeps:
  "compartmentStack (fetchChildren p c b s) = compartmentStack s"
  "selectedProfile (fetchChildren p c b s) = selectedProfile s"
  "profileRootId (fetchChildren p c b s) = profileRootId s"
  "policies (fetchChildren p c b s) = policies s"
  by (simp_all add: fetchChildren_def)

lemma childrenSettled_stack:
  "compartmentStack (childrenSettled p c b r s) = compartmentStack s"
  by (simp add: childrenSettled_def children_then_def children_catch_def Let_def
      fetchPolicies_keeps split: fetched.splits json.splits)

lemma policiesSettled_stack:
  "compartmentStack (policiesSettled r s) = compartmentStack s"
  by (simp add: policiesSettled_def policies_then_def policies_catch_def
      split: fetched.splits json.splits)

lemma step_stack:
  "compartmentStack (step (Drilldown c) s) = compartmentStack s @ [entry_of c]"
  "compartmentStack (step Back s) = butlast (compartmentStack s)"
  "compartmentStack (step (ChildrenReply i r) s) = compartmentStack s"
  "compartmentStack (step (PoliciesReply j q) s) = compartmentStack s"
  by (simp_all add: handleDrilldown_def handleBack_def Let_def settle_children_def
      settle_policies_def fetchPolicies_keeps fetchChildren_keeps childrenSettled_stack
      policiesSettled_stack split: pending.splits)


lemma feasible_backs_on_stack: "feasible evs s \<Longrightarrow> backs_on_stack evs s"
  by (induction evs arbitrary: s) (auto simp: back_button_def simp del: step.simps)




lemma remove_nth_end: "remove_nth (length xs) (xs @ a # ys) = xs @ ys"
  by (simp add: remove_nth_def)

lemma remove_nth_end2: "remove_nth (Suc (length xs)) (xs @ a # b # ys) = xs @ a # ys"
  by (simp add: remove_nth_def)

lemma children_failure:
  assumes "fetch_failed r"
  shows "childrenSettled prof parentId setRootId r s =
           s\<lparr>error := error (childrenSettled prof parentId setRootId r s), compartments := [],
             loadingCompartments := False\<rparr> \<and>
         error (childrenSettled prof parentId setRootId r s) \<noteq> []"
  using assms
  by (auto simp: fetch_failed_def childrenSettled_def children_then_def children_catch_def
      split: fetched.splits json.splits)

lemma policies_failure:
  assumes "fetch_failed q"
  shows "policiesSettled q s =
           s\<lparr>error := error (policiesSettled q s), policies := [], loadingPolicies := False\<rparr> \<and>
         error (policiesSettled q s) \<noteq> []"
  using assms
  by (auto simp: fetch_failed_def policiesSettled_def policies_then_def policies_catch_def
      split: fetched.splits json.splits)




text \<open>
  Claim C4. Let a children-fetch be in flight for the grouping id \<open>parentId\<close>, issued
  while a profile was selected, and let it succeed with an array of no items. When
  \<open>parentId\<close> is not empty, a policies-fetch is issued for the same id. When it is empty
  (the fetch that follows the selection of a profile, with the root not yet resolved),
  no request is issued and the list of policies is cleared.
\<close>

theorem leaf_policies_fetch:
  assumes "i < length (inflight s)" and "inflight s ! i = AwaitChildren prof parentId setRootId"
    and "prof \<noteq> []"
  shows "compartments (step (ChildrenReply i (Resolves (JsonArray []))) s) = [] \<and>
         sent (step (ChildrenReply i (Resolves (JsonArray []))) s) =
           sent s @ (if parentId = [] then [] else [GetPolicies prof parentId]) \<and>
         inflight (step (ChildrenReply i (Resolves (JsonArray []))) s) =
           remove_nth i (inflight s) @ (if parentId = [] then [] else [AwaitPolicies prof parentId]) \<and>
         (parentId = [] \<longrightarrow> policies (step (ChildrenReply i (Resolves (JsonArray []))) s) = [])"
  using assms
  by (simp add: settle_children_def childrenSettled_def children_then_def root_hint_def
      fetchPolicies_def Let_def)

theorem leaf_policies_fetch_witness:
  "sent (step (ChildrenReply 1 (Resolves (JsonArray []))) (step (Drilldown sales) dev_session)) =
     sent (step (Drilldown sales) dev_session) @ [GetPolicies ''dev'' ''ocid1.compartment.y''] \<and>
   sent (step (ChildrenReply 0 (Resolves (JsonArray []))) (step (SelectProfile ''dev'') init_session)) =
     sent (step (SelectProfile ''dev'') init_session) \<and>
   policies (step (ChildrenReply 0 (Resolves (JsonArray []))) (step (SelectProfile ''dev'') init_session)) = []"
proof -
  have a: "inflight (step (Drilldown sales) dev_session) =
      [AwaitPolicies ''dev'' ''ocid1.tenancy.x'', AwaitChildren ''dev'' ''ocid1.compartment.y'' False,
       AwaitPolicies ''dev'' ''ocid1.compartment.y'']"
    by code_simp
  have b: "inflight (step (SelectProfile ''dev'') init_session) = [AwaitChildren ''dev'' [] True]"
    by code_simp
  show ?thesis
    using leaf_policies_fetch [of 1 "step (Drilldown sales) dev_session" "''dev''"
        "''ocid1.compartment.y''" False]
      leaf_policies_fetch [of 0 "step (SelectProfile ''dev'') init_session" "''dev''" "[]" True]
    by (simp add: a b del: step.simps)
qed

text \<open>
  So a policies-fetch does not follow every empty listing: the profile \<open>dev\<close> is
  selected in the initial session and its children-fetch succeeds with no items; the
  request for the compartments stays the only request sent and nothing is in flight.
\<close>

theorem leaf_policies_fetch_counterexample:
  "feasible [SelectProfile ''dev'', ChildrenReply 0 (Resolves (JsonArray []))] init_session \<and>
   sent (run [SelectProfile ''dev''] init_session) = [GetCompartments ''dev'' None] \<and>
   inflight (run [SelectProfile ''dev''] init_session) = [AwaitChildren ''dev'' [] True] \<and>
   sent (run [SelectProfile ''dev'', ChildrenReply 0 (Resolves (JsonArray []))] init_session) =
     [GetCompartments ''dev'' None] \<and>
   inflight (run [SelectProfile ''dev'', ChildrenReply 0 (Resolves (JsonArray []))] init_session) = []"
  by code_simp

text \<open>
  Claim C5. Let a children-fetch or a policies-fetch in flight fail: the fetch rejects,
  or it resolves to a value that is not an array. Then the error message of the session
  is set to a message that is not empty (and so is shown), the list of compartments,
  respectively of policies, is empty and its loading flag is off, no request is sent,
  and the stack is as it was. A rejection and a throw of the first callback both end in
  the callback of \<^verbatim>\<open>catch\<close>, so the chain settles without an unhandled rejection.
  The push of a drill-down and the pop of a back stay in place when both fetches they
  started fail.
\<close>

theorem fetch_failure_handled:
  assumes "fetch_failed r" and "fetch_failed q"
    and "i < length (inflight s)" and "inflight s ! i = AwaitChildren prof parentId setRootId"
    and "j < length (inflight t)" and "inflight t ! j = AwaitPolicies prof' compartmentId"
  shows "error (step (ChildrenReply i r) s) \<noteq> [] \<and>
         compartments (step (ChildrenReply i r) s) = [] \<and>
         \<not> loadingCompartments (step (ChildrenReply i r) s) \<and>
         sent (step (ChildrenReply i r) s) = sent s \<and>
         inflight (step (ChildrenReply i r) s) = remove_nth i (inflight s) \<and>
         compartmentStack (step (ChildrenReply i r) s) = compartmentStack s \<and>
         error (step (PoliciesReply j q) t) \<noteq> [] \<and>
         policies (step (PoliciesReply j q) t) = [] \<and>
         \<not> loadingPolicies (step (PoliciesReply j q) t) \<and>
         sent (step (PoliciesReply j q) t) = sent t \<and>
         inflight (step (PoliciesReply j q) t) = remove_nth j (inflight t) \<and>
         compartmentStack (step (PoliciesReply j q) t) = compartmentStack t \<and>
         (\<forall>data. (\<exists>exn. children_then prof parentId setRootId data s = Inl exn) \<longrightarrow>
            childrenSettled prof parentId setRootId (Resolves data) s = children_catch s) \<and>
         childrenSettled prof parentId setRootId Rejects s = children_catch s \<and>
         (\<forall>data. (\<exists>exn. policies_then data t = Inl exn) \<longrightarrow>
            policiesSettled (Resolves data) t = policies_catch t) \<and>
         policiesSettled Rejects t = policies_catch t \<and>
         (\<forall>c u k l. compartmentStack (run [Drilldown c, ChildrenReply k r, PoliciesReply l q] u) =
            compartmentStack u @ [entry_of c]) \<and>
         (\<forall>u k l. compartmentStack (run [Back, ChildrenReply k r, PoliciesReply l q] u) =
            butlast (compartmentStack u))"
proof -
  let ?s = "s\<lparr>inflight := remove_nth i (inflight s)\<rparr>"
  let ?t = "t\<lparr>inflight := remove_nth j (inflight t)\<rparr>"
  have cs: "step (ChildrenReply i r) s = childrenSettled prof parentId setRootId r ?s"
    using assms(3,4) by (simp add: settle_children_def)
  have ps: "step (PoliciesReply j q) t = policiesSettled q ?t"
    using assms(5,6) by (simp add: settle_policies_def)
  have c1: "error (step (ChildrenReply i r) s) \<noteq> []"
    unfolding cs using children_failure [OF assms(1)] by blast
  have c2: "compartments (step (ChildrenReply i r) s) = [] \<and>
      \<not> loadingCompartments (step (ChildrenReply i r) s) \<and>
      sent (step (ChildrenReply i r) s) = sent s \<and>
      inflight (step (ChildrenReply i r) s) = remove_nth i (inflight s)"
    unfolding cs
    by (subst children_failure [OF assms(1), THEN conjunct1], simp)+
  have p1: "error (step (PoliciesReply j q) t) \<noteq> []"
    unfolding ps using policies_failure [OF assms(2)] by blast
  have p2: "policies (step (PoliciesReply j q) t) = [] \<and>
      \<not> loadingPolicies (step (PoliciesReply j q) t) \<and>
      sent (step (PoliciesReply j q) t) = sent t \<and>
      inflight (step (PoliciesReply j q) t) = remove_nth j (inflight t)"
    unfolding ps
    by (subst policies_failure [OF assms(2), THEN conjunct1], simp)+
  have thrown: "(\<forall>data. (\<exists>exn. children_then prof parentId setRootId data s = Inl exn) \<longrightarrow>
            childrenSettled prof parentId setRootId (Resolves data) s = children_catch s) \<and>
         childrenSettled prof parentId setRootId Rejects s = children_catch s \<and>
         (\<forall>data. (\<exists>exn. policies_then data t = Inl exn) \<longrightarrow>
            policiesSettled (Resolves data) t = policies_catch t) \<and>
         policiesSettled Rejects t = policies_catch t"
    by (auto simp: childrenSettled_def policiesSettled_def)
  have kept: "(\<forall>c u k l. compartmentStack (run [Drilldown c, ChildrenReply k r, PoliciesReply l q] u) =
            compartmentStack u @ [entry_of c]) \<and>
         (\<forall>u k l. compartmentStack (run [Back, ChildrenReply k r, PoliciesReply l q] u) =
            butlast (compartmentStack u))"
    by (simp add: step_stack del: step.simps)
  show ?thesis
    using c1 c2 p1 p2 thrown kept step_stack(3) [of i r s] step_stack(4) [of j q t]
    by blast
qed

theorem fetch_failure_handled_witness:
  "fetch_failed (Rejects :: compartment fetched) \<and>
   fetch_failed (Resolves (JsonOther ''Profile not found'') :: policy fetched) \<and>
   error (step (ChildrenReply 1 Rejects) (step (Drilldown sales) dev_session)) \<noteq> [] \<and>
   compartments (step (ChildrenReply 1 Rejects) (step (Drilldown sales) dev_session)) = [] \<and>
   compartmentStack (step (ChildrenReply 1 Rejects) (step (Drilldown sales) dev_session)) =
     [entry_of sales] \<and>
   error (step (PoliciesReply 2 (Resolves (JsonOther ''Profile not found'')))
     (step (Drilldown sales) dev_session)) \<noteq> [] \<and>
   policies (step (PoliciesReply 2 (Resolves (JsonOther ''Profile not found'')))
     (step (Drilldown sales) dev_session)) = [] \<and>
   compartmentStack (step (PoliciesReply 2 (Resolves (JsonOther ''Profile not found'')))
     (step (Drilldown sales) dev_session)) = [entry_of sales]"
proof -
  have a: "inflight (step (Drilldown sales) dev_session) =
      [AwaitPolicies ''dev'' ''ocid1.tenancy.x'', AwaitChildren ''dev'' ''ocid1.compartment.y'' False,
       AwaitPolicies ''dev'' ''ocid1.compartment.y'']"
    by code_simp
  have b: "compartmentStack (step (Drilldown sales) dev_session) = [entry_of sales]"
    by code_simp
  have f: "fetch_failed (Rejects :: compartment fetched)"
    "fetch_failed (Resolves (JsonOther ''Profile not found'') :: policy fetched)"
    by (simp_all add: fetch_failed_def)
  show ?thesis
    using f b
      fetch_failure_handled [OF f, of 1 "step (Drilldown sales) dev_session" "''dev''"
        "''ocid1.compartment.y''" False 2 "step (Drilldown sales) dev_session" "''dev''"
        "''ocid1.compartment.y''"]
    by (simp add: a del: step.simps)
qed

text \<open>
  Claim C8. A drill-down into a node with the id \<open>N\<close> (not empty, a profile being
  selected) sends the request for the children of \<open>N\<close> and a request for the policies
  of \<open>N\<close>. When the children-fetch then succeeds with an array, the same request for
  the policies of \<open>N\<close> is sent a second time and two policies-fetches for \<open>N\<close> are in
  flight. The list of policies is that of the response that arrives last: the response
  to the second fetch overwrites that to the first when they arrive in order, and the
  other way round otherwise.
\<close>

theorem drilldown_fetches_policies_twice:
  assumes "selectedProfile s \<noteq> []" and "c_id c \<noteq> []"
  shows "sent (step (Drilldown c) s) =
           sent s @ [GetCompartments (selectedProfile s) (Some (c_id c)),
                     GetPolicies (selectedProfile s) (c_id c)] \<and>
         inflight (step (Drilldown c) s) =
           inflight s @ [AwaitChildren (selectedProfile s) (c_id c) False,
                         AwaitPolicies (selectedProfile s) (c_id c)] \<and>
         sent (run [Drilldown c, ChildrenReply (length (inflight s)) (Resolves (JsonArray items))] s) =
           sent s @ [GetCompartments (selectedProfile s) (Some (c_id c)),
                     GetPolicies (selectedProfile s) (c_id c),
                     GetPolicies (selectedProfile s) (c_id c)] \<and>
         inflight (run [Drilldown c, ChildrenReply (length (inflight s)) (Resolves (JsonArray items))] s) =
           inflight s @ [AwaitPolicies (selectedProfile s) (c_id c),
                         AwaitPolicies (selectedProfile s) (c_id c)] \<and>
         policies (run [Drilldown c, ChildrenReply (length (inflight s)) (Resolves (JsonArray items)),
                        PoliciesReply (length (inflight s)) (Resolves (JsonArray xs)),
                        PoliciesReply (length (inflight s)) (Resolves (JsonArray ys))] s) = ys \<and>
         policies (run [Drilldown c, ChildrenReply (length (inflight s)) (Resolves (JsonArray items)),
                        PoliciesReply (Suc (length (inflight s))) (Resolves (JsonArray ys)),
                        PoliciesReply (length (inflight s)) (Resolves (JsonArray xs))] s) = xs"
proof -
  let ?p = "selectedProfile s" and ?n = "length (inflight s)"
  let ?s1 = "step (Drilldown c) s"
  let ?s2 = "step (ChildrenReply ?n (Resolves (JsonArray items))) ?s1"
  have s1: "sent ?s1 = sent s @ [GetCompartments ?p (Some (c_id c)), GetPolicies ?p (c_id c)]"
    "inflight ?s1 = inflight s @ [AwaitChildren ?p (c_id c) False, AwaitPolicies ?p (c_id c)]"
    using assms by (simp_all add: handleDrilldown_def fetchChildren_def fetchPolicies_def)
  have s2: "sent ?s2 = sent s @ [GetCompartments ?p (Some (c_id c)), GetPolicies ?p (c_id c),
        GetPolicies ?p (c_id c)]"
    "inflight ?s2 = inflight s @ [AwaitPolicies ?p (c_id c), AwaitPolicies ?p (c_id c)]"
    using assms
    by (simp_all add: settle_children_def s1 remove_nth_end childrenSettled_def children_then_def
        root_hint_def fetchPolicies_def Let_def del: step.simps(2))
  have two: "policies (step (PoliciesReply k (Resolves (JsonArray zs))) t) = zs"
    if "k < length (inflight t)" and "inflight t ! k = AwaitPolicies a b" for k zs t a b
    using that by (simp add: settle_policies_def policiesSettled_def policies_then_def)
  have rest: "inflight (step (PoliciesReply k (Resolves (JsonArray zs))) t) = remove_nth k (inflight t)"
    if "k < length (inflight t)" and "inflight t ! k = AwaitPolicies a b" for k zs t a b
    using that by (simp add: settle_policies_def policiesSettled_def policies_then_def)
  have in_order: "policies (step (PoliciesReply ?n (Resolves (JsonArray ys)))
      (step (PoliciesReply ?n (Resolves (JsonArray xs))) ?s2)) = ys"
    by (rule two [where a = ?p and b = "c_id c"])
       (simp_all add: rest [where a = ?p and b = "c_id c"] s2 remove_nth_end nth_append
         del: step.simps)
  have reversed: "policies (step (PoliciesReply ?n (Resolves (JsonArray xs)))
      (step (PoliciesReply (Suc ?n) (Resolves (JsonArray ys))) ?s2)) = xs"
    by (rule two [where a = ?p and b = "c_id c"])
       (simp_all add: rest [where a = ?p and b = "c_id c"] s2 remove_nth_end2 nth_append
         del: step.simps)
  show ?thesis
    using s1 s2 in_order reversed by (simp del: step.simps)
qed

theorem drilldown_fetches_policies_twice_witness:
  "selectedProfile dev_session \<noteq> [] \<and> c_id sales \<noteq> [] \<and>
   sent (run [Drilldown sales, ChildrenReply 1 (Resolves (JsonArray []))] dev_session) =
     sent dev_session @
       [GetCompartments ''dev'' (Some ''ocid1.compartment.y''),
        GetPolicies ''dev'' ''ocid1.compartment.y'', GetPolicies ''dev'' ''ocid1.compartment.y''] \<and>
   policies (run [Drilldown sales, ChildrenReply 1 (Resolves (JsonArray [])),
      PoliciesReply 1 (Resolves (JsonArray [])),
      PoliciesReply 1 (Resolves (JsonArray [allow_all]))] dev_session) = [allow_all]"
proof -
  have a: "selectedProfile dev_session = ''dev''" "inflight dev_session = [AwaitPolicies ''dev'' ''ocid1.tenancy.x'']"
    "c_id sales = ''ocid1.compartment.y''"
    by code_simp+
  have b: "selectedProfile dev_session \<noteq> []" "c_id sales \<noteq> []"
    by (simp_all add: a)
  show ?thesis
    using b drilldown_fetches_policies_twice [OF b, of "[]" "[]" "[allow_all]"]
    by (simp add: a del: step.simps run.simps)
qed

text \<open>
  Claim C10. \<open>fetchPolicies\<close> called with an empty (or absent) compartment id, or while
  no profile is selected, only clears the list of policies: the requests sent and the
  fetches in flight are as before. So when a profile is selected and its root listing
  gives no hint of the root id (it is empty, or its first item has no
  \<open>compartmentId\<close>), the list of policies is empty, the request for the compartments is
  the only request sent and no fetch is left in flight that could send another.
\<close>

theorem policies_fetch_guard:
  "(prof = [] \<or> compartmentId = [] \<longrightarrow> fetchPolicies prof compartmentId s = s\<lparr>policies := []\<rparr>) \<and>
   (profile \<noteq> [] \<and> profile \<noteq> selectedProfile t \<and> root_hint True items = [] \<longrightarrow>
      policies (run [SelectProfile profile,
          ChildrenReply (length (inflight t)) (Resolves (JsonArray items))] t) = [] \<and>
      sent (run [SelectProfile profile,
          ChildrenReply (length (inflight t)) (Resolves (JsonArray items))] t) =
        sent t @ [GetCompartments profile None] \<and>
      inflight (run [SelectProfile profile,
          ChildrenReply (length (inflight t)) (Resolves (JsonArray items))] t) = inflight t)"
  by (auto simp: fetchPolicies_def selectProfile_def handleProfileChange_def profileEffect_def
      fetchChildren_def settle_children_def remove_nth_end childrenSettled_def children_then_def
      Let_def)

theorem policies_fetch_guard_witness:
  "fetchPolicies [] ''ocid1.compartment.y'' dev_session = dev_session\<lparr>policies := []\<rparr> \<and>
   fetchPolicies ''dev'' [] dev_session = dev_session\<lparr>policies := []\<rparr> \<and>
   policies (run [SelectProfile ''dev'', ChildrenReply 0 (Resolves (JsonArray []))] init_session) = [] \<and>
   sent (run [SelectProfile ''dev'', ChildrenReply 0 (Resolves (JsonArray []))] init_session) =
     [GetCompartments ''dev'' None] \<and>
   inflight (run [SelectProfile ''dev'', ChildrenReply 0 (Resolves (JsonArray []))] init_session) = []"
proof -
  have a: "selectedProfile init_session = []" "inflight init_session = []" "sent init_session = []"
    by (simp_all add: init_session_def)
  have b: "root_hint True [] = []" by (simp add: root_hint_def)
  show ?thesis
    using policies_fetch_guard [of "[]" "''ocid1.compartment.y''" dev_session "''dev''" init_session "[]"]
      policies_fetch_guard [of "''dev''" "[]" dev_session "''dev''" init_session "[]"]
    by (simp add: a b del: step.simps run.simps)
qed

end
